theory Spec2Isabelle
  imports Complex_Main
begin

section \<open>Numbers of the simulation\<close>

text \<open>
  The program computes with numpy \<open>float64\<close> values. A value is modelled as either a
  finite number or one of the three special values of IEEE 754. Arithmetic on finite
  values is taken exactly, as real arithmetic: rounding, overflow and underflow are not
  modelled, and the two zeros are identified with \<open>+0\<close>. The special values follow
  IEEE 754 as numpy applies it: a finite non-zero value divided by zero is an infinity,
  \<open>0 / 0\<close>, \<open>inf - inf\<close>, \<open>inf * 0\<close> and \<open>inf / inf\<close> are NaN, and NaN propagates. numpy
  scalars and arrays do not raise on a division by zero (they warn and go on).
  What is proved of the division by \<open>r = 0\<close> uses the special values only; the
  statements on the integration step, the inverse-square law and the infall are
  statements of exact arithmetic.
\<close>

datatype float64 = Fin real | PInf | NInf | NaN

fun is_finite :: "float64 \<Rightarrow> bool" where
  "is_finite (Fin a) = True"
| "is_finite PInf = False"
| "is_finite NInf = False"
| "is_finite NaN = False"

fun f_neg :: "float64 \<Rightarrow> float64" where
  "f_neg (Fin a) = Fin (- a)"
| "f_neg PInf = NInf"
| "f_neg NInf = PInf"
| "f_neg NaN = NaN"

fun f_add :: "float64 \<Rightarrow> float64 \<Rightarrow> float64" where
  "f_add NaN b = NaN"
| "f_add a NaN = NaN"
| "f_add (Fin a) (Fin b) = Fin (a + b)"
| "f_add (Fin a) PInf = PInf"
| "f_add (Fin a) NInf = NInf"
| "f_add PInf NInf = NaN"
| "f_add PInf b = PInf"
| "f_add NInf PInf = NaN"
| "f_add NInf b = NInf"

definition f_sub :: "float64 \<Rightarrow> float64 \<Rightarrow> float64" where
  "f_sub a b = f_add a (f_neg b)"

text \<open>The sign of an infinite result: positive when the signs of the operands agree.\<close>

definition signed_inf :: "bool \<Rightarrow> float64" where
  "signed_inf positive = (if positive then PInf else NInf)"

fun nonneg :: "float64 \<Rightarrow> bool" where
  "nonneg (Fin a) = (0 \<le> a)"
| "nonneg PInf = True"
| "nonneg NInf = False"
| "nonneg NaN = False"

fun f_mul :: "float64 \<Rightarrow> float64 \<Rightarrow> float64" where
  "f_mul NaN b = NaN"
| "f_mul a NaN = NaN"
| "f_mul (Fin a) (Fin b) = Fin (a * b)"
| "f_mul (Fin a) b = (if a = 0 then NaN else signed_inf ((0 < a) = nonneg b))"
| "f_mul a (Fin b) = (if b = 0 then NaN else signed_inf (nonneg a = (0 < b)))"
| "f_mul a b = signed_inf (nonneg a = nonneg b)"

fun f_div :: "float64 \<Rightarrow> float64 \<Rightarrow> float64" where
  "f_div NaN b = NaN"
| "f_div a NaN = NaN"
| "f_div (Fin a) (Fin b) =
     (if b = 0 then (if a = 0 then NaN else signed_inf (0 < a)) else Fin (a / b))"
| "f_div (Fin a) b = Fin 0"
| "f_div a (Fin b) = signed_inf (nonneg a = (0 \<le> b))"
| "f_div a b = NaN"

fun f_sqrt :: "float64 \<Rightarrow> float64" where
  "f_sqrt (Fin a) = (if a < 0 then NaN else Fin (sqrt a))"
| "f_sqrt PInf = PInf"
| "f_sqrt NInf = NaN"
| "f_sqrt NaN = NaN"

section \<open>Vectors\<close>

text \<open>A numpy array of three floats (\<open>np.array([x, y, z])\<close>, pyrr's \<open>Vector3\<close>).\<close>

datatype vec3 = Vec3 (vx: float64) (vy: float64) (vz: float64)

fun v_add :: "vec3 \<Rightarrow> vec3 \<Rightarrow> vec3" where
  "v_add (Vec3 a b c) (Vec3 x y z) = Vec3 (f_add a x) (f_add b y) (f_add c z)"

fun v_sub :: "vec3 \<Rightarrow> vec3 \<Rightarrow> vec3" where
  "v_sub (Vec3 a b c) (Vec3 x y z) = Vec3 (f_sub a x) (f_sub b y) (f_sub c z)"

text \<open>\<open>v * k\<close>, \<open>k * v\<close> and \<open>v / k\<close> for an array \<open>v\<close> and a scalar \<open>k\<close> (broadcast).\<close>

fun v_mul :: "vec3 \<Rightarrow> float64 \<Rightarrow> vec3" where
  "v_mul (Vec3 x y z) k = Vec3 (f_mul x k) (f_mul y k) (f_mul z k)"

fun s_mul :: "float64 \<Rightarrow> vec3 \<Rightarrow> vec3" where
  "s_mul k (Vec3 x y z) = Vec3 (f_mul k x) (f_mul k y) (f_mul k z)"

fun v_div :: "vec3 \<Rightarrow> float64 \<Rightarrow> vec3" where
  "v_div (Vec3 x y z) k = Vec3 (f_div x k) (f_div y k) (f_div z k)"

fun dot :: "vec3 \<Rightarrow> vec3 \<Rightarrow> float64" where
  "dot (Vec3 a b c) (Vec3 x y z) = f_add (f_add (f_mul a x) (f_mul b y)) (f_mul c z)"

text \<open>\<open>np.linalg.norm(v)\<close> of a one-dimensional array: \<open>sqrt(dot(v, v))\<close>.\<close>

definition linalg_norm :: "vec3 \<Rightarrow> float64" where
  "linalg_norm v = f_sqrt (dot v v)"

text \<open>\<open>Vector3.cross(a, b)\<close>.\<close>

fun cross :: "vec3 \<Rightarrow> vec3 \<Rightarrow> vec3" where
  "cross (Vec3 a b c) (Vec3 x y z) =
     Vec3 (f_sub (f_mul b z) (f_mul c y))
          (f_sub (f_mul c x) (f_mul a z))
          (f_sub (f_mul a y) (f_mul b x))"

text \<open>No component is a finite number: each is NaN or an infinity.\<close>

fun none_finite :: "vec3 \<Rightarrow> bool" where
  "none_finite (Vec3 x y z) = (\<not> is_finite x \<and> \<not> is_finite y \<and> \<not> is_finite z)"

section \<open>Simulation parameters\<close>

definition g :: float64 where
  "g = Fin (667430 / 10 ^ 16)"

definition blackhole_mass :: float64 where
  "blackhole_mass = Fin (10 ^ 31)"

definition star_mass :: float64 where
  "star_mass = Fin (10 ^ 30)"

section \<open>Physics update\<close>

text \<open>
  Lines 192 to 194 of \<open>main.py\<close>: the acceleration of the star at position \<open>p\<close>.
  \<^verbatim>\<open>
  r = np.linalg.norm(star_pos)
  force = -g * blackhole_mass * star_mass / (r**2)
  acc = force / star_mass * (star_pos / r)
  \<close>
\<close>

definition acceleration :: "vec3 \<Rightarrow> vec3" where
  "acceleration p =
     (let r = linalg_norm p;
          force = f_div (f_mul (f_mul (f_neg g) blackhole_mass) star_mass) (f_mul r r);
          acc = s_mul (f_div force star_mass) (v_div p r)
      in acc)"

text \<open>
  Lines 192 to 196: the acceleration, then
  \<^verbatim>\<open>
  star_vel += acc * 0.01
  star_pos += star_vel * 0.01
  \<close>
  on the pair of the star's position and velocity.
\<close>

fun physics_update :: "vec3 \<times> vec3 \<Rightarrow> vec3 \<times> vec3" where
  "physics_update (pos, vel) =
     (let acc = acceleration pos;
          vel1 = v_add vel (v_mul acc (Fin (1 / 100)));
          pos1 = v_add pos (v_mul vel1 (Fin (1 / 100)))
      in (pos1, vel1))"

section \<open>State of the frame loop\<close>

text \<open>
  The mutable variables of the program: the star's kinematics and the camera pose
  (module-level variables of \<open>main.py\<close>), and the locals \<open>running\<close>, \<open>view\<close> and
  \<open>proj\<close> of \<open>main\<close>. The GPU handles (\<open>ctx\<close>, the programs and vertex arrays) are
  created once and only named by the calls of the render pass.

  The record holds the values of the variables. Whether a name is bound when a
  statement reads it is a separate matter: \<open>main\<close> assigns \<open>camera_pos\<close>, \<open>star_vel\<close> and
  \<open>star_pos\<close> without a \<open>global\<close> statement, which makes them locals of \<open>main\<close> that
  nothing binds. The functions of this section and the next ones say what the
  statements compute from the values; the sections on the names of \<open>main\<close> and of the
  loop body say which statements raise before they compute anything.
\<close>

type_synonym mat4 = "float64 list list"

record sim_state =
  star_pos :: vec3
  star_vel :: vec3
  camera_pos :: vec3
  camera_front :: vec3
  camera_up :: vec3
  running :: bool
  view :: mat4
  proj :: mat4

section \<open>Camera input\<close>

datatype key = K_w | K_s | K_a | K_d | K_other

datatype event = QUIT | KEYDOWN key | OTHER_EVENT

text \<open>
  The body of the loop over \<open>pygame.event.get()\<close>, lines 178 to 189. The four tests on
  \<open>event.key\<close> are separate \<open>if\<close> statements, each reading the camera position left by
  the one before.
\<close>

fun handle_event :: "sim_state \<Rightarrow> event \<Rightarrow> sim_state" where
  "handle_event s QUIT = s\<lparr>running := False\<rparr>"
| "handle_event s (KEYDOWN k) =
     (let s1 = (if k = K_w
                then s\<lparr>camera_pos := v_add (camera_pos s) (v_mul (camera_front s) (Fin (1 / 2)))\<rparr>
                else s);
          s2 = (if k = K_s
                then s1\<lparr>camera_pos := v_sub (camera_pos s1) (v_mul (camera_front s1) (Fin (1 / 2)))\<rparr>
                else s1);
          s3 = (if k = K_a
                then s2\<lparr>camera_pos := v_sub (camera_pos s2)
                       (v_mul (cross (camera_front s2) (camera_up s2)) (Fin (1 / 2)))\<rparr>
                else s2);
          s4 = (if k = K_d
                then s3\<lparr>camera_pos := v_add (camera_pos s3)
                       (v_mul (cross (camera_front s3) (camera_up s3)) (Fin (1 / 2)))\<rparr>
                else s3)
      in s4)"
| "handle_event s OTHER_EVENT = s"

definition handle_events :: "sim_state \<Rightarrow> event list \<Rightarrow> sim_state" where
  "handle_events s events = foldl handle_event s events"

section \<open>Matrices of the render pass\<close>

text \<open>
  \<open>Matrix44.identity()\<close> and \<open>Matrix44.from_translation(v)\<close> of pyrr, whose matrices are
  row-major with the translation in the last row. \<open>Matrix44.look_at\<close> and
  \<open>Matrix44.perspective_projection\<close> are pyrr's as well; the program only passes their
  results on, so they are parameters of the model.
\<close>

definition identity44 :: mat4 where
  "identity44 =
     [[Fin 1, Fin 0, Fin 0, Fin 0],
      [Fin 0, Fin 1, Fin 0, Fin 0],
      [Fin 0, Fin 0, Fin 1, Fin 0],
      [Fin 0, Fin 0, Fin 0, Fin 1]]"

fun from_translation :: "vec3 \<Rightarrow> mat4" where
  "from_translation (Vec3 x y z) =
     [[Fin 1, Fin 0, Fin 0, Fin 0],
      [Fin 0, Fin 1, Fin 0, Fin 0],
      [Fin 0, Fin 0, Fin 1, Fin 0],
      [x, y, z, Fin 1]]"

record pyrr =
  look_at :: "vec3 \<Rightarrow> vec3 \<Rightarrow> vec3 \<Rightarrow> mat4"
  perspective_projection :: "float64 \<Rightarrow> float64 \<Rightarrow> float64 \<Rightarrow> float64 \<Rightarrow> mat4"

text \<open>
  \<open>m.astype('f4').tobytes()\<close>: the bytes of the matrix \<open>m\<close> converted to float32. The
  conversion rounds; the model keeps the matrix that was converted and does not say
  what the rounded entries are.
\<close>

datatype f4_bytes = astype_f4 mat4

text \<open>Line 199: \<open>view = Matrix44.look_at(camera_pos, camera_pos + camera_front, camera_up)\<close>.\<close>

definition update_view :: "pyrr \<Rightarrow> sim_state \<Rightarrow> sim_state" where
  "update_view lib s =
     s\<lparr>view := look_at lib (camera_pos s) (v_add (camera_pos s) (camera_front s)) (camera_up s)\<rparr>"

section \<open>Render pass\<close>

text \<open>
  The calls the loop makes on the GPU context, the shader programs, the vertex arrays,
  the display and the clock, in the order it makes them.
\<close>

datatype program = Prog_bg | Prog_disk | Prog_ring | Prog_bh | Prog_star

datatype vertex_array = Vao_bg | Vao_disk | Vao_ring | Vao_blackhole | Vao_star

datatype gl_call =
    Clear float64 float64 float64
  | Buffer "float64 list"
  | Simple_vertex_array program
  | Write program string f4_bytes
  | Render vertex_array
  | Flip
  | Tick nat

text \<open>Lines 2 to 15.\<close>

definition draw_background :: "program \<Rightarrow> mat4 \<Rightarrow> mat4 \<Rightarrow> gl_call list" where
  "draw_background prog pr vw =
     [Buffer [Fin (- 40), Fin (- 40), Fin 0,
              Fin 40, Fin (- 40), Fin 0,
              Fin 40, Fin 40, Fin 0,
              Fin (- 40), Fin 40, Fin 0],
      Simple_vertex_array prog,
      Write prog ''model'' (astype_f4 identity44),
      Write prog ''view'' (astype_f4 vw),
      Write prog ''proj'' (astype_f4 pr),
      Render Vao_bg]"

text \<open>Lines 201 to 226.\<close>

definition render_pass :: "sim_state \<Rightarrow> gl_call list" where
  "render_pass s =
     [Clear (Fin (1 / 10)) (Fin (1 / 10)) (Fin (15 / 100))]
     @ draw_background Prog_bg (proj s) (view s)
     @ [Write Prog_disk ''model'' (astype_f4 identity44),
        Write Prog_disk ''view'' (astype_f4 (view s)),
        Write Prog_disk ''proj'' (astype_f4 (proj s)),
        Render Vao_disk,
        Write Prog_ring ''model'' (astype_f4 identity44),
        Write Prog_ring ''view'' (astype_f4 (view s)),
        Write Prog_ring ''proj'' (astype_f4 (proj s)),
        Render Vao_ring,
        Write Prog_bh ''model'' (astype_f4 identity44),
        Write Prog_bh ''view'' (astype_f4 (view s)),
        Write Prog_bh ''proj'' (astype_f4 (proj s)),
        Render Vao_blackhole,
        Write Prog_star ''model'' (astype_f4 (from_translation (star_pos s))),
        Write Prog_star ''view'' (astype_f4 (view s)),
        Write Prog_star ''proj'' (astype_f4 (proj s)),
        Render Vao_star,
        Flip,
        Tick 60]"

section \<open>Frame loop\<close>

text \<open>
  What the statements of one iteration of \<open>while running\<close>, lines 177 to 226, compute
  and issue on the events the iteration drains, from the values of the variables: the
  iteration as it runs when every name it reads is bound. \<open>iteration\<close> further down
  adds the reading of the names, and with it the exceptions of the source.
\<close>

definition frame :: "pyrr \<Rightarrow> event list \<Rightarrow> sim_state \<Rightarrow> sim_state \<times> gl_call list" where
  "frame lib events s =
     (let s1 = handle_events s events;
          (pos, vel) = physics_update (star_pos s1, star_vel s1);
          s2 = s1\<lparr>star_pos := pos, star_vel := vel\<rparr>;
          s3 = update_view lib s2
      in (s3, render_pass s3))"

text \<open>
  The loop of such iterations, on the events of the successive iterations. \<open>running\<close>
  is tested at the top of an iteration only, so the iteration that receives \<open>QUIT\<close>
  still runs to its end. The loop of the program has no bound of its own; the model
  runs it for as many iterations as event lists are supplied. The states it passes
  through include every state the program can pass through.
\<close>

fun main_loop :: "pyrr \<Rightarrow> event list list \<Rightarrow> sim_state \<Rightarrow> sim_state \<times> gl_call list" where
  "main_loop lib [] s = (s, [])"
| "main_loop lib (events # rest) s =
     (if running s
      then (let (s1, calls) = frame lib events s;
                (s2, calls2) = main_loop lib rest s1
            in (s2, calls @ calls2))
      else (s, []))"

text \<open>The module-level values, and \<open>proj\<close> and \<open>view\<close> as lines 172 and 173 compute them.\<close>

definition initial_state :: "pyrr \<Rightarrow> sim_state" where
  "initial_state lib =
     \<lparr>star_pos = Vec3 (Fin 0) (Fin 0) (Fin 10),
      star_vel = Vec3 (Fin 0) (Fin 0) (Fin (- (1 / 10))),
      camera_pos = Vec3 (Fin 0) (Fin 0) (Fin 20),
      camera_front = Vec3 (Fin 0) (Fin 0) (Fin (- 1)),
      camera_up = Vec3 (Fin 0) (Fin 1) (Fin 0),
      running = True,
      view = look_at lib (Vec3 (Fin 0) (Fin 0) (Fin 20))
               (v_add (Vec3 (Fin 0) (Fin 0) (Fin 20)) (Vec3 (Fin 0) (Fin 0) (Fin (- 1))))
               (Vec3 (Fin 0) (Fin 1) (Fin 0)),
      proj = perspective_projection lib (Fin 45) (Fin (800 / 600)) (Fin (1 / 10)) (Fin 100)\<rparr>"

section \<open>What a draw call uses\<close>






section \<open>The function main\<close>

text \<open>
  Python resolves a name read in \<open>main\<close> as a local of \<open>main\<close> when \<open>main\<close> assigns it
  anywhere in its body, and as a module-level name otherwise. Reading a local that is
  not bound yet raises \<open>UnboundLocalError\<close>; reading a module-level name that the module
  does not define raises \<open>NameError\<close>.
\<close>

datatype error = NameError string | UnboundLocalError string

text \<open>The names bound at module level when line 231 calls \<open>main\<close>.\<close>

definition module_globals :: "string list" where
  "module_globals =
     [''draw_background'', ''vertex_shader_bg'', ''fragment_shader_bg'',
      ''np'', ''moderngl'', ''pygame'', ''DOUBLEBUF'', ''OPENGL'', ''Matrix44'', ''Vector3'',
      ''g'', ''blackhole_mass'', ''star_mass'', ''star_pos'', ''star_vel'',
      ''camera_pos'', ''camera_front'', ''camera_up'',
      ''init_window'', ''create_sphere'', ''vertex_shader'', ''fragment_shader'',
      ''vertex_shader_sphere'', ''fragment_shader_sphere'',
      ''vertex_shader_disk'', ''fragment_shader_disk'', ''fragment_shader_ring'',
      ''main'']"

text \<open>The names \<open>main\<close> assigns (it has no \<open>global\<close> statement).\<close>

definition main_locals :: "string list" where
  "main_locals =
     [''ctx'', ''clock'', ''running'', ''blackhole'', ''prog_bh'', ''star'', ''prog_star'',
      ''disk'', ''prog_disk'', ''ring'', ''prog_ring'', ''prog_bg'', ''proj'', ''view'',
      ''event'', ''camera_pos'', ''r'', ''force'', ''acc'', ''star_vel'', ''star_pos'',
      ''model_star'']"

definition load_name :: "string list \<Rightarrow> string \<Rightarrow> error + unit" where
  "load_name bound n =
     (if n \<in> set main_locals
      then (if n \<in> set bound then Inr () else Inl (UnboundLocalError n))
      else (if n \<in> set module_globals then Inr () else Inl (NameError n)))"

fun load_names :: "string list \<Rightarrow> string list \<Rightarrow> error + unit" where
  "load_names bound [] = Inr ()"
| "load_names bound (n # ns) =
     (case load_name bound n of Inl e \<Rightarrow> Inl e | Inr u \<Rightarrow> load_names bound ns)"

text \<open>
  A statement of \<open>main\<close>, as the names it reads in evaluation order and the locals it
  binds afterwards; a sequence of statements stops at the first exception.
\<close>

fun exec_stmts :: "string list \<Rightarrow> (string list \<times> string list) list \<Rightarrow> error + string list" where
  "exec_stmts bound [] = Inr bound"
| "exec_stmts bound ((reads, binds) # stmts) =
     (case load_names bound reads of
        Inl e \<Rightarrow> Inl e
      | Inr u \<Rightarrow> exec_stmts (binds @ bound) stmts)"

text \<open>
  Lines 160 to 173, the statements of \<open>main\<close> before the loop. The window, the context
  and the shader compiler are outside the program and taken to succeed.
\<close>

definition main_setup :: "(string list \<times> string list) list" where
  "main_setup =
     [([''init_window''], [''ctx'']),
      ([''pygame''], [''clock'']),
      ([], [''running'']),
      ([''create_sphere'', ''ctx''], [''blackhole'', ''prog_bh'']),
      ([''create_sphere'', ''ctx''], [''star'', ''prog_star'']),
      ([''create_disk'', ''ctx''], [''disk'', ''prog_disk'']),
      ([''create_ring'', ''ctx''], [''ring'', ''prog_ring'']),
      ([''ctx'', ''vertex_shader_bg'', ''fragment_shader_bg''], [''prog_bg'']),
      ([''Matrix44''], [''proj'']),
      ([''Matrix44'', ''camera_pos'', ''camera_pos'', ''camera_front'', ''camera_up''],
       [''view''])]"

section \<open>Names of the loop body\<close>

text \<open>
  A statement of the loop body: the names it reads in evaluation order, the locals it
  binds afterwards, and the calls it issues once its names are read. A sequence of
  statements stops at the first exception, with the calls issued before it.
\<close>

type_synonym stmt = "string list \<times> string list \<times> gl_call list"

fun exec_body :: "string list \<Rightarrow> stmt list \<Rightarrow> gl_call list \<times> (error + string list)" where
  "exec_body bound [] = ([], Inr bound)"
| "exec_body bound ((reads, binds, calls) # stmts) =
     (case load_names bound reads of
        Inl e \<Rightarrow> ([], Inl e)
      | Inr u \<Rightarrow> (case exec_body (binds @ bound) stmts of (cs, r) \<Rightarrow> (calls @ cs, r)))"



text \<open>
  Lines 182 to 189, for a \<open>KEYDOWN\<close> event with the key \<open>k\<close>. An augmented assignment
  reads its target before its right-hand side.
\<close>

definition key_stmts :: "key \<Rightarrow> stmt list" where
  "key_stmts k =
     [([''event'', ''pygame''], [], [])]
     @ (if k = K_w then [([''camera_pos'', ''camera_front''], [''camera_pos''], [])] else [])
     @ [([''event'', ''pygame''], [], [])]
     @ (if k = K_s then [([''camera_pos'', ''camera_front''], [''camera_pos''], [])] else [])
     @ [([''event'', ''pygame''], [], [])]
     @ (if k = K_a
        then [([''camera_pos'', ''Vector3'', ''camera_front'', ''camera_up''], [''camera_pos''], [])]
        else [])
     @ [([''event'', ''pygame''], [], [])]
     @ (if k = K_d
        then [([''camera_pos'', ''Vector3'', ''camera_front'', ''camera_up''], [''camera_pos''], [])]
        else [])"

text \<open>Lines 177 to 189 for one event: the loop target, then the tests on the event.\<close>

fun event_stmts :: "event \<Rightarrow> stmt list" where
  "event_stmts QUIT =
     [([], [''event''], []),
      ([''event'', ''pygame''], [], []),
      ([], [''running''], []),
      ([''event'', ''pygame''], [], [])]"
| "event_stmts (KEYDOWN k) =
     [([], [''event''], []),
      ([''event'', ''pygame''], [], []),
      ([''event'', ''pygame''], [], [])]
     @ key_stmts k"
| "event_stmts OTHER_EVENT =
     [([], [''event''], []),
      ([''event'', ''pygame''], [], []),
      ([''event'', ''pygame''], [], [])]"

text \<open>Lines 192 to 196, and line 199.\<close>

definition physics_stmts :: "stmt list" where
  "physics_stmts =
     [([''np'', ''star_pos''], [''r''], []),
      ([''g'', ''blackhole_mass'', ''star_mass'', ''r''], [''force''], []),
      ([''force'', ''star_mass'', ''star_pos'', ''r''], [''acc''], []),
      ([''star_vel'', ''acc''], [''star_vel''], []),
      ([''star_pos'', ''star_vel''], [''star_pos''], [])]"

definition view_stmt :: stmt where
  "view_stmt =
     ([''Matrix44'', ''camera_pos'', ''camera_pos'', ''camera_front'', ''camera_up''],
      [''view''], [])"

text \<open>Lines 177 to 199: the events, the physics update and the view update.\<close>

definition update_stmts :: "event list \<Rightarrow> stmt list" where
  "update_stmts events =
     [([''pygame''], [], [])]
     @ concat (map event_stmts events)
     @ physics_stmts
     @ [view_stmt]"

text \<open>
  Lines 201 to 226, with the calls each statement issues for the values of the state
  \<open>s\<close>. The call of \<open>draw_background\<close> is one statement: the names its body reads are
  module-level names.
\<close>

definition render_stmts :: "sim_state \<Rightarrow> stmt list" where
  "render_stmts s =
     [([''ctx''], [], [Clear (Fin (1 / 10)) (Fin (1 / 10)) (Fin (15 / 100))]),
      ([''draw_background'', ''ctx'', ''prog_bg'', ''proj'', ''view'',
        ''np'', ''Matrix44'', ''moderngl''], [],
       draw_background Prog_bg (proj s) (view s)),
      ([''prog_disk'', ''Matrix44''], [], [Write Prog_disk ''model'' (astype_f4 identity44)]),
      ([''prog_disk'', ''view''], [], [Write Prog_disk ''view'' (astype_f4 (view s))]),
      ([''prog_disk'', ''proj''], [], [Write Prog_disk ''proj'' (astype_f4 (proj s))]),
      ([''disk'', ''moderngl''], [], [Render Vao_disk]),
      ([''prog_ring'', ''Matrix44''], [], [Write Prog_ring ''model'' (astype_f4 identity44)]),
      ([''prog_ring'', ''view''], [], [Write Prog_ring ''view'' (astype_f4 (view s))]),
      ([''prog_ring'', ''proj''], [], [Write Prog_ring ''proj'' (astype_f4 (proj s))]),
      ([''ring'', ''moderngl''], [], [Render Vao_ring]),
      ([''prog_bh'', ''Matrix44''], [], [Write Prog_bh ''model'' (astype_f4 identity44)]),
      ([''prog_bh'', ''view''], [], [Write Prog_bh ''view'' (astype_f4 (view s))]),
      ([''prog_bh'', ''proj''], [], [Write Prog_bh ''proj'' (astype_f4 (proj s))]),
      ([''blackhole'', ''moderngl''], [], [Render Vao_blackhole]),
      ([''Matrix44'', ''star_pos''], [''model_star''], []),
      ([''prog_star'', ''model_star''], [],
       [Write Prog_star ''model'' (astype_f4 (from_translation (star_pos s)))]),
      ([''prog_star'', ''view''], [], [Write Prog_star ''view'' (astype_f4 (view s))]),
      ([''prog_star'', ''proj''], [], [Write Prog_star ''proj'' (astype_f4 (proj s))]),
      ([''star'', ''moderngl''], [], [Render Vao_star]),
      ([''pygame''], [], [Flip]),
      ([''clock''], [], [Tick 60])]"

text \<open>
  One iteration of \<open>while running\<close> as \<open>main\<close> runs it, with the locals \<open>bound\<close> on
  entry: the calls it issues, and either the exception that ends it or the locals
  bound and the state at its end.
\<close>

definition iteration :: "string list \<Rightarrow> pyrr \<Rightarrow> event list \<Rightarrow> sim_state
    \<Rightarrow> gl_call list \<times> (error + string list \<times> sim_state)" where
  "iteration bound lib events s =
     (let s3 = fst (frame lib events s)
      in case exec_body bound (update_stmts events @ render_stmts s3) of
           (calls, Inl e) \<Rightarrow> (calls, Inl e)
         | (calls, Inr bound1) \<Rightarrow> (calls, Inr (bound1, s3)))"

text \<open>The loop of \<open>main\<close>: an exception ends it.\<close>

fun run_loop :: "string list \<Rightarrow> pyrr \<Rightarrow> event list list \<Rightarrow> sim_state
    \<Rightarrow> gl_call list \<times> (error + sim_state)" where
  "run_loop bound lib [] s = ([], Inr s)"
| "run_loop bound lib (events # rest) s =
     (if running s
      then (case iteration bound lib events s of
              (calls, Inl e) \<Rightarrow> (calls, Inl e)
            | (calls, Inr (bound1, s1)) \<Rightarrow>
                (case run_loop bound1 lib rest s1 of (calls2, r) \<Rightarrow> (calls @ calls2, r)))
      else ([], Inr s))"


text \<open>
  \<open>main\<close> on the events of the successive iterations: the exception it raises, or the
  calls of the frames it renders.
\<close>

definition main :: "pyrr \<Rightarrow> event list list \<Rightarrow> error + gl_call list" where
  "main lib inputs =
     (case exec_stmts [] main_setup of
        Inl e \<Rightarrow> Inl e
      | Inr bound \<Rightarrow>
          (case run_loop bound lib inputs (initial_state lib) of
             (calls, Inl e) \<Rightarrow> Inl e
           | (calls, Inr s) \<Rightarrow> Inr calls))"

section \<open>The integrator as the specification words it\<close>

text \<open>
  Semi-implicit Euler on triples of real numbers, following the words of the
  specification: the acceleration has magnitude \<open>G * M / r\<^sup>2\<close> and points from the star
  toward the origin; the velocity is updated first and the position is updated with the
  new velocity. These definitions are compared with \<open>physics_update\<close> below.
\<close>

type_synonym rvec = "real \<times> real \<times> real"

fun embed :: "rvec \<Rightarrow> vec3" where
  "embed (x, y, z) = Vec3 (Fin x) (Fin y) (Fin z)"

fun r_add :: "rvec \<Rightarrow> rvec \<Rightarrow> rvec" where
  "r_add (a, b, c) (x, y, z) = (a + x, b + y, c + z)"

fun r_scale :: "real \<Rightarrow> rvec \<Rightarrow> rvec" where
  "r_scale k (x, y, z) = (k * x, k * y, k * z)"

fun distance_to_origin :: "rvec \<Rightarrow> real" where
  "distance_to_origin (x, y, z) = sqrt (x\<^sup>2 + y\<^sup>2 + z\<^sup>2)"

definition spec_acceleration :: "real \<Rightarrow> real \<Rightarrow> rvec \<Rightarrow> rvec" where
  "spec_acceleration G M p =
     (let r = distance_to_origin p;
          magnitude = G * M / r\<^sup>2;
          toward_origin = r_scale (- 1 / r) p
      in r_scale magnitude toward_origin)"

definition semi_implicit_euler :: "real \<Rightarrow> real \<Rightarrow> real \<Rightarrow> rvec \<times> rvec \<Rightarrow> rvec \<times> rvec" where
  "semi_implicit_euler G M dt state =
     (let (position, velocity) = state;
          velocity1 = r_add velocity (r_scale dt (spec_acceleration G M position));
          position1 = r_add position (r_scale dt velocity1)
      in (position1, velocity1))"

section \<open>Camera step and infall as the specification words them\<close>

text \<open>
  \<open>normalize(v)\<close> of the specification's strafe direction
  \<open>normalize(cross(front, up))\<close>: the vector divided by its length. The program has no
  such function; it is compared with what \<open>handle_event\<close> adds to the camera position.
\<close>

definition normalize_vec :: "vec3 \<Rightarrow> vec3" where
  "normalize_vec v = v_div v (linalg_norm v)"

text \<open>Comparison of two floats: false whenever an operand is NaN.\<close>

fun f_less :: "float64 \<Rightarrow> float64 \<Rightarrow> bool" where
  "f_less (Fin a) (Fin b) = (a < b)"
| "f_less (Fin a) PInf = True"
| "f_less NInf (Fin b) = True"
| "f_less NInf PInf = True"
| "f_less a b = False"

text \<open>
  The star after \<open>n\<close> physics updates from the position \<open>(0, 0, 10)\<close> with velocity
  \<open>(0, 0, 0)\<close>, the start of the specification's infall property.
\<close>

definition star_after :: "nat \<Rightarrow> vec3 \<times> vec3" where
  "star_after n =
     (physics_update ^^ n) (Vec3 (Fin 0) (Fin 0) (Fin 10), Vec3 (Fin 0) (Fin 0) (Fin 0))"

section \<open>Arithmetic of the acceleration\<close>

lemma sumsq_nonneg: "\<not> (x * x + y * y + z * z < (0::real))"
  by (simp add: not_less)

lemma sumsq_pos: "x * x + y * y + z * z \<noteq> (0::real) \<Longrightarrow> 0 < x * x + y * y + z * z"
  using sumsq_nonneg [of x y z] by linarith

lemma sumsq_zero: "x * x + y * y + z * z = (0::real) \<Longrightarrow> x = 0 \<and> y = 0 \<and> z = 0"
proof -
  assume a: "x * x + y * y + z * z = 0"
  have "0 \<le> x * x" "0 \<le> y * y" "0 \<le> z * z" by simp_all
  with a have "x * x = 0 \<and> y * y = 0 \<and> z * z = 0" by linarith
  then show ?thesis by simp
qed

lemma sumsq_power2: "x\<^sup>2 + y\<^sup>2 + z\<^sup>2 = x * x + y * y + (z::real) * z"
  by (simp add: power2_eq_square)

lemma sqrt_100: "sqrt 100 = (10::real)"
  using real_sqrt_abs2 [of "10::real"] by simp


lemma linalg_norm_Fin:
  "linalg_norm (Vec3 (Fin x) (Fin y) (Fin z)) = Fin (sqrt (x * x + y * y + z * z))"
  by (simp add: linalg_norm_def sumsq_nonneg)

lemma norm_Fin_D:
  "linalg_norm p = Fin r \<Longrightarrow> \<exists>x y z. p = Vec3 (Fin x) (Fin y) (Fin z) \<and> r = sqrt (x * x + y * y + z * z)"
  apply (cases p)
  subgoal for a b c
    apply (cases a; cases b; cases c)
    apply (simp_all add: linalg_norm_def signed_inf_def sumsq_nonneg split: if_splits)
    done
  done

lemma acc_component:
  fixes G M m q t :: real
  assumes "m \<noteq> 0" and "q \<noteq> 0"
  shows "- G * M * m / q / m * t = - (G * M / q) * t"
  using assms by (simp add: field_simps)

lemma acc_general:
  fixes G M m q x y z :: real
  assumes m: "m \<noteq> 0" and q: "0 < q"
  shows "s_mul (f_div (f_div (f_mul (f_mul (f_neg (Fin G)) (Fin M)) (Fin m))
             (f_mul (Fin (sqrt q)) (Fin (sqrt q)))) (Fin m))
           (v_div (Vec3 (Fin x) (Fin y) (Fin z)) (Fin (sqrt q))) =
         Vec3 (Fin (- (G * M / q) * (x / sqrt q)))
              (Fin (- (G * M / q) * (y / sqrt q)))
              (Fin (- (G * M / q) * (z / sqrt q)))"
proof -
  have r: "sqrt q \<noteq> 0" and rr: "sqrt q * sqrt q = q" and q0: "q \<noteq> 0"
    using q by simp_all
  show ?thesis
    using m r q0 q by (simp add: rr acc_component)
qed

text \<open>The acceleration away from the origin, with the star's mass cancelled.\<close>

lemma acceleration_Fin:
  assumes "x * x + y * y + z * z \<noteq> 0"
  shows "acceleration (Vec3 (Fin x) (Fin y) (Fin z)) =
     Vec3 (Fin (- (667430 / 10 ^ 16 * 10 ^ 31 / (x * x + y * y + z * z)) * (x / sqrt (x * x + y * y + z * z))))
          (Fin (- (667430 / 10 ^ 16 * 10 ^ 31 / (x * x + y * y + z * z)) * (y / sqrt (x * x + y * y + z * z))))
          (Fin (- (667430 / 10 ^ 16 * 10 ^ 31 / (x * x + y * y + z * z)) * (z / sqrt (x * x + y * y + z * z))))"
proof -
  have pos: "0 < x * x + y * y + z * z" using assms by (rule sumsq_pos)
  have m: "(10::real) ^ 30 \<noteq> 0" by simp
  show ?thesis
    unfolding acceleration_def Let_def linalg_norm_Fin g_def blackhole_mass_def star_mass_def
    by (rule acc_general [OF m pos])
qed

text \<open>At the origin \<open>r\<close> is zero: the force is \<open>-inf\<close> and \<open>star_pos / r\<close> is \<open>0 / 0\<close>.\<close>

lemma acceleration_origin:
  "acceleration (Vec3 (Fin 0) (Fin 0) (Fin 0)) = Vec3 NaN NaN NaN"
  by (simp add: acceleration_def linalg_norm_Fin g_def blackhole_mass_def star_mass_def signed_inf_def)

lemma spec_acceleration_components:
  fixes G M x y z :: real
  assumes q: "x * x + y * y + z * z \<noteq> 0"
  shows "spec_acceleration G M (x, y, z) =
     (- (G * M / (x * x + y * y + z * z)) * (x / sqrt (x * x + y * y + z * z)),
      - (G * M / (x * x + y * y + z * z)) * (y / sqrt (x * x + y * y + z * z)),
      - (G * M / (x * x + y * y + z * z)) * (z / sqrt (x * x + y * y + z * z)))"
proof -
  have qq: "(sqrt (x * x + y * y + z * z))\<^sup>2 = x * x + y * y + z * z"
    using sumsq_nonneg [of x y z] by (simp add: not_less)
  show ?thesis
    by (simp add: spec_acceleration_def Let_def sumsq_power2 qq)
qed

lemma acceleration_embed:
  assumes "0 < distance_to_origin p"
  shows "acceleration (embed p) = embed (spec_acceleration (667430 / 10 ^ 16) (10 ^ 31) p)"
proof -
  obtain x y z where p: "p = (x, y, z)" by (cases p)
  have q: "x * x + y * y + z * z \<noteq> 0"
    using assms unfolding p by (auto simp: sumsq_power2)
  show ?thesis
    unfolding p embed.simps acceleration_Fin [OF q] spec_acceleration_components [OF q]
    by (rule refl)
qed

lemma v_add_embed: "v_add (embed a) (embed b) = embed (r_add a b)"
  by (cases a; cases b) simp

lemma v_mul_embed: "v_mul (embed a) (Fin k) = embed (r_scale k a)"
  by (cases a) (simp add: mult.commute)

lemma physics_update_embed:
  assumes r: "0 < distance_to_origin p"
  shows "physics_update (embed p, embed v) =
        (embed (fst (semi_implicit_euler (667430 / 10 ^ 16) (10 ^ 31) (1 / 100) (p, v))),
         embed (snd (semi_implicit_euler (667430 / 10 ^ 16) (10 ^ 31) (1 / 100) (p, v))))"
  by (simp only: physics_update.simps Let_def acceleration_embed [OF r] v_mul_embed v_add_embed
        semi_implicit_euler_def prod.case fst_conv snd_conv)

section \<open>The degenerate division\<close>

lemma norm_zero_origin:
  assumes "linalg_norm pos = Fin 0"
  shows "pos = Vec3 (Fin 0) (Fin 0) (Fin 0)"
proof -
  obtain x y z where p: "pos = Vec3 (Fin x) (Fin y) (Fin z)" and r: "0 = sqrt (x * x + y * y + z * z)"
    using norm_Fin_D [OF assms] by blast
  have "x * x + y * y + z * z = 0" using r by simp
  then have "x = 0 \<and> y = 0 \<and> z = 0" by (rule sumsq_zero)
  then show ?thesis using p by simp
qed

lemma v_mul_NaN: "v_mul (Vec3 NaN NaN NaN) k = Vec3 NaN NaN NaN"
  by simp

lemma v_add_NaN: "v_add v (Vec3 NaN NaN NaN) = Vec3 NaN NaN NaN"
proof (cases v)
  case (Vec3 a b c)
  then show ?thesis by (cases a; cases b; cases c) simp_all
qed

text \<open>
  C1, as the code has it. The physics update has no guard: it neither clamps \<open>r\<close> nor
  treats a collision as a terminal state. Whenever \<open>r\<close> is \<open>0\<close>, the star being at the
  origin, the divisions by \<open>r**2\<close> and by \<open>r\<close> of lines 193 and 194 are carried out, and
  no component of the resulting position or velocity is a finite number, whatever the
  velocity was.
\<close>

theorem physics_update_no_guard:
  assumes "linalg_norm pos = Fin 0"
  shows "none_finite (fst (physics_update (pos, vel))) \<and> none_finite (snd (physics_update (pos, vel)))"
  unfolding norm_zero_origin [OF assms]
  by (simp add: acceleration_origin Let_def v_add_NaN)

text \<open>At the origin with the velocity \<open>(1, 2, 3)\<close>.\<close>

theorem physics_update_no_guard_witness:
  "linalg_norm (Vec3 (Fin 0) (Fin 0) (Fin 0)) = Fin 0
   \<and> none_finite (fst (physics_update (Vec3 (Fin 0) (Fin 0) (Fin 0), Vec3 (Fin 1) (Fin 2) (Fin 3))))
   \<and> none_finite (snd (physics_update (Vec3 (Fin 0) (Fin 0) (Fin 0), Vec3 (Fin 1) (Fin 2) (Fin 3))))"
proof -
  have r: "linalg_norm (Vec3 (Fin 0) (Fin 0) (Fin 0)) = Fin 0"
    by (simp add: linalg_norm_Fin)
  show ?thesis
    using physics_update_no_guard [OF r, of "Vec3 (Fin 1) (Fin 2) (Fin 3)"] r by blast
qed

text \<open>
  C1 as stated fails: a star at the origin (\<open>r = 0\<close>) with the module's initial
  velocity comes out of one update with NaN in every component of its position and of
  its velocity.
\<close>

theorem physics_update_origin_counterexample:
  "linalg_norm (Vec3 (Fin 0) (Fin 0) (Fin 0)) = Fin 0
   \<and> physics_update (Vec3 (Fin 0) (Fin 0) (Fin 0), Vec3 (Fin 0) (Fin 0) (Fin (- (1 / 10))))
       = (Vec3 NaN NaN NaN, Vec3 NaN NaN NaN)"
  by (simp add: acceleration_origin linalg_norm_Fin Let_def)

section \<open>Semi-implicit Euler\<close>

text \<open>
  C2. For every star state with finite components whose position is at a distance
  \<open>r > 0\<close> from the origin, one physics update is the semi-implicit Euler step of the
  specification for \<open>G = 6.67430e-11\<close>, a black hole of mass \<open>1e31\<close> and the fixed
  timestep \<open>dt = 0.01\<close>. In every state the velocity is updated first, by
  \<open>acceleration * 0.01\<close>, and the position is then updated with the velocity already
  updated.
\<close>

theorem physics_update_semi_implicit_euler:
  "(0 < distance_to_origin p \<longrightarrow>
      physics_update (embed p, embed v) =
        (embed (fst (semi_implicit_euler (667430 / 10 ^ 16) (10 ^ 31) (1 / 100) (p, v))),
         embed (snd (semi_implicit_euler (667430 / 10 ^ 16) (10 ^ 31) (1 / 100) (p, v)))))
   \<and> snd (physics_update (pos, vel)) = v_add vel (v_mul (acceleration pos) (Fin (1 / 100)))
   \<and> fst (physics_update (pos, vel)) =
       v_add pos (v_mul (snd (physics_update (pos, vel))) (Fin (1 / 100)))"
proof (intro conjI impI)
  assume "0 < distance_to_origin p"
  then show "physics_update (embed p, embed v) =
        (embed (fst (semi_implicit_euler (667430 / 10 ^ 16) (10 ^ 31) (1 / 100) (p, v))),
         embed (snd (semi_implicit_euler (667430 / 10 ^ 16) (10 ^ 31) (1 / 100) (p, v))))"
    by (rule physics_update_embed)
next
  show "snd (physics_update (pos, vel)) = v_add vel (v_mul (acceleration pos) (Fin (1 / 100)))"
    by (simp only: physics_update.simps Let_def snd_conv)
next
  show "fst (physics_update (pos, vel)) =
       v_add pos (v_mul (snd (physics_update (pos, vel))) (Fin (1 / 100)))"
    by (simp only: physics_update.simps Let_def snd_conv fst_conv)
qed

text \<open>
  The module's initial star state: the acceleration is \<open>-6.6743e18\<close> along \<open>z\<close>, the new
  velocity \<open>-0.1 - 6.6743e16\<close> and the new position \<open>10\<close> plus a hundredth of it.
\<close>

theorem physics_update_semi_implicit_euler_witness:
  "0 < distance_to_origin (0, 0, 10)
   \<and> semi_implicit_euler (667430 / 10 ^ 16) (10 ^ 31) (1 / 100) ((0, 0, 10), (0, 0, - (1 / 10)))
       = ((0, 0, - (667429999999990001 / 1000)), (0, 0, - (667430000000000001 / 10)))
   \<and> physics_update (Vec3 (Fin 0) (Fin 0) (Fin 10), Vec3 (Fin 0) (Fin 0) (Fin (- (1 / 10))))
       = (Vec3 (Fin 0) (Fin 0) (Fin (- (667429999999990001 / 1000))),
          Vec3 (Fin 0) (Fin 0) (Fin (- (667430000000000001 / 10))))"
proof -
  have r: "0 < distance_to_origin (0, 0, 10)" by simp
  have e: "semi_implicit_euler (667430 / 10 ^ 16) (10 ^ 31) (1 / 100) ((0, 0, 10), (0, 0, - (1 / 10)))
       = ((0, 0, - (667429999999990001 / 1000)), (0, 0, - (667430000000000001 / 10)))"
    by (simp add: semi_implicit_euler_def spec_acceleration_def Let_def sqrt_100)
  have "physics_update (embed (0, 0, 10), embed (0, 0, - (1 / 10))) =
        (embed (fst (semi_implicit_euler (667430 / 10 ^ 16) (10 ^ 31) (1 / 100) ((0, 0, 10), (0, 0, - (1 / 10))))),
         embed (snd (semi_implicit_euler (667430 / 10 ^ 16) (10 ^ 31) (1 / 100) ((0, 0, 10), (0, 0, - (1 / 10))))))"
    using physics_update_semi_implicit_euler [of "(0, 0, 10)" "(0, 0, - (1 / 10))"] r by blast
  then show ?thesis
    unfolding e using r e by simp
qed

section \<open>Inverse-square attraction\<close>









section \<open>An iteration of the loop in main\<close>


















section \<open>Calling main\<close>

text \<open>
  C9. Neither \<open>create_disk\<close> nor \<open>create_ring\<close> is defined in the module, and \<open>main\<close>
  raises \<open>NameError\<close> for \<open>create_disk\<close> on line 167, before the loop, whatever events
  would follow: it renders no frame.
\<close>

theorem main_name_error:
  "''create_disk'' \<notin> set module_globals \<and> ''create_ring'' \<notin> set module_globals
   \<and> main lib inputs = Inl (NameError ''create_disk'')"
  by (simp add: main_def main_setup_def load_name_def main_locals_def module_globals_def)

section \<open>Camera\<close>

lemma handle_event_axes:
  "camera_front (handle_event s e) = camera_front s \<and> camera_up (handle_event s e) = camera_up s"
  by (cases e) (simp_all add: Let_def)

lemma handle_events_axes:
  "camera_front (handle_events s es) = camera_front s \<and> camera_up (handle_events s es) = camera_up s"
  unfolding handle_events_def
  by (induction es arbitrary: s) (simp_all add: handle_event_axes)

lemma frame_axes:
  "camera_front (fst (frame lib es s)) = camera_front s \<and> camera_up (fst (frame lib es s)) = camera_up s"
  by (simp add: frame_def update_view_def Let_def split_beta handle_events_axes)

lemma main_loop_axes:
  "camera_front (fst (main_loop lib inputs s)) = camera_front s
   \<and> camera_up (fst (main_loop lib inputs s)) = camera_up s"
proof (induction inputs arbitrary: s)
  case Nil
  show ?case by simp
next
  case (Cons es rest)
  show ?case
  proof (cases "running s")
    case True
    then show ?thesis
      using Cons [of "fst (frame lib es s)"] frame_axes [of lib es s]
      by (simp add: split_beta Let_def)
  next
    case False
    then show ?thesis by simp
  qed
qed

lemma loop_state_axes:
  "camera_front (handle_events (fst (main_loop lib inputs (initial_state lib))) es)
     = Vec3 (Fin 0) (Fin 0) (Fin (- 1))
   \<and> camera_up (handle_events (fst (main_loop lib inputs (initial_state lib))) es)
     = Vec3 (Fin 0) (Fin 1) (Fin 0)"
  by (simp add: handle_events_axes main_loop_axes initial_state_def)

lemma linalg_norm_x: "linalg_norm (Vec3 (Fin x) (Fin 0) (Fin 0)) = Fin \<bar>x\<bar>"
  by (simp add: linalg_norm_Fin)

lemma linalg_norm_y: "linalg_norm (Vec3 (Fin 0) (Fin y) (Fin 0)) = Fin \<bar>y\<bar>"
  by (simp add: linalg_norm_Fin)

lemma linalg_norm_z: "linalg_norm (Vec3 (Fin 0) (Fin 0) (Fin z)) = Fin \<bar>z\<bar>"
  by (simp add: linalg_norm_Fin)

lemma cross_axes:
  "cross (Vec3 (Fin 0) (Fin 0) (Fin (- 1))) (Vec3 (Fin 0) (Fin 1) (Fin 0)) = Vec3 (Fin 1) (Fin 0) (Fin 0)"
  by (simp add: f_sub_def)

text \<open>
  C10. No operation of the program changes \<open>camera_front\<close> or \<open>camera_up\<close>: handling an
  event (a \<open>W\<close>, \<open>A\<close>, \<open>S\<close> or \<open>D\<close> key changes \<open>camera_pos\<close> only) and a whole frame
  keep both. So in every state that the loop reaches from the module's initial values,
  also in the middle of the events of a frame, \<open>camera_front\<close> is \<open>(0, 0, -1)\<close> and
  \<open>camera_up\<close> is \<open>(0, 1, 0)\<close>; they are not zero and not parallel, and their cross
  product has length \<open>1\<close>.
\<close>

theorem camera_axes_fixed:
  "camera_front (handle_event s e) = camera_front s \<and> camera_up (handle_event s e) = camera_up s
   \<and> camera_front (fst (frame lib events s)) = camera_front s
   \<and> camera_up (fst (frame lib events s)) = camera_up s
   \<and> (let t = handle_events (fst (main_loop lib inputs (initial_state lib))) events
      in camera_front t = Vec3 (Fin 0) (Fin 0) (Fin (- 1))
         \<and> camera_up t = Vec3 (Fin 0) (Fin 1) (Fin 0)
         \<and> camera_front t \<noteq> Vec3 (Fin 0) (Fin 0) (Fin 0)
         \<and> camera_up t \<noteq> Vec3 (Fin 0) (Fin 0) (Fin 0)
         \<and> cross (camera_front t) (camera_up t) \<noteq> Vec3 (Fin 0) (Fin 0) (Fin 0)
         \<and> linalg_norm (cross (camera_front t) (camera_up t)) = Fin 1)"
  unfolding Let_def loop_state_axes [THEN conjunct1] loop_state_axes [THEN conjunct2] cross_axes
  using handle_event_axes [of s e] frame_axes [of lib events s]
  by (simp add: linalg_norm_x)

lemma f_div_one: "f_div a (Fin 1) = a"
  by (cases a) (simp_all add: signed_inf_def)

lemma normalize_unit:
  assumes "linalg_norm c = Fin 1"
  shows "normalize_vec c = c"
  unfolding normalize_vec_def assms by (cases c) (simp add: f_div_one)

lemma half_sumsq:
  fixes x y z :: real
  shows "x * (1 / 2) * (x * (1 / 2)) + y * (1 / 2) * (y * (1 / 2)) + z * (1 / 2) * (z * (1 / 2))
         = (x * x + y * y + z * z) / 4"
  by (simp add: field_simps)

lemma half_norm:
  assumes "linalg_norm c = Fin 1"
  shows "linalg_norm (v_mul c (Fin (1 / 2))) = Fin (1 / 2)"
proof -
  obtain x y z where c: "c = Vec3 (Fin x) (Fin y) (Fin z)" and r: "1 = sqrt (x * x + y * y + z * z)"
    using norm_Fin_D [OF assms] by blast
  have "sqrt ((x * x + y * y + z * z) / 4) = sqrt (x * x + y * y + z * z) / sqrt 4"
    by (rule real_sqrt_divide)
  also have "\<dots> = 1 / 2" using r [symmetric] by simp
  finally have "sqrt ((x * x + y * y + z * z) / 4) = 1 / 2" .
  then show ?thesis
    unfolding c v_mul.simps f_mul.simps linalg_norm_Fin half_sumsq by simp
qed

text \<open>
  C4, as the code has it. In every state a \<open>W\<close> key press adds \<open>0.5 * camera_front\<close> to
  the camera position and an \<open>S\<close> key press subtracts it, an \<open>A\<close> key press subtracts
  and a \<open>D\<close> key press adds \<open>0.5 * cross(camera_front, camera_up)\<close>: the cross product
  is not normalised. The forward step has length \<open>0.5\<close> when \<open>camera_front\<close> has length
  \<open>1\<close>; the strafe is \<open>0.5 * normalize(cross(camera_front, camera_up))\<close> and has length
  \<open>0.5\<close> when the cross product has length \<open>1\<close>, as it has for the module's
  \<open>camera_front\<close> and \<open>camera_up\<close>. The step is taken once per key-press event and no
  time enters it.
\<close>

theorem camera_step_cross:
  "camera_pos (handle_event t (KEYDOWN K_w)) =
     v_add (camera_pos t) (v_mul (camera_front t) (Fin (1 / 2)))
   \<and> camera_pos (handle_event t (KEYDOWN K_s)) =
     v_sub (camera_pos t) (v_mul (camera_front t) (Fin (1 / 2)))
   \<and> camera_pos (handle_event t (KEYDOWN K_a)) =
     v_sub (camera_pos t) (v_mul (cross (camera_front t) (camera_up t)) (Fin (1 / 2)))
   \<and> camera_pos (handle_event t (KEYDOWN K_d)) =
     v_add (camera_pos t) (v_mul (cross (camera_front t) (camera_up t)) (Fin (1 / 2)))
   \<and> (linalg_norm (camera_front t) = Fin 1 \<longrightarrow>
        linalg_norm (v_mul (camera_front t) (Fin (1 / 2))) = Fin (1 / 2))
   \<and> (linalg_norm (cross (camera_front t) (camera_up t)) = Fin 1 \<longrightarrow>
        normalize_vec (cross (camera_front t) (camera_up t)) = cross (camera_front t) (camera_up t)
        \<and> linalg_norm (v_mul (cross (camera_front t) (camera_up t)) (Fin (1 / 2))) = Fin (1 / 2))"
  by (simp add: Let_def normalize_unit half_norm)

text \<open>The module's camera: a \<open>D\<close> key press moves it by \<open>(0.5, 0, 0)\<close>.\<close>

theorem camera_step_cross_witness:
  "linalg_norm (Vec3 (Fin 0) (Fin 0) (Fin (- 1))) = Fin 1
   \<and> linalg_norm (cross (Vec3 (Fin 0) (Fin 0) (Fin (- 1))) (Vec3 (Fin 0) (Fin 1) (Fin 0))) = Fin 1
   \<and> camera_pos (handle_event
        \<lparr>star_pos = Vec3 (Fin 0) (Fin 0) (Fin 10),
         star_vel = Vec3 (Fin 0) (Fin 0) (Fin (- (1 / 10))),
         camera_pos = Vec3 (Fin 0) (Fin 0) (Fin 20),
         camera_front = Vec3 (Fin 0) (Fin 0) (Fin (- 1)),
         camera_up = Vec3 (Fin 0) (Fin 1) (Fin 0),
         running = True, view = [], proj = []\<rparr> (KEYDOWN K_d))
       = Vec3 (Fin (1 / 2)) (Fin 0) (Fin 20)
   \<and> normalize_vec (cross (Vec3 (Fin 0) (Fin 0) (Fin (- 1))) (Vec3 (Fin 0) (Fin 1) (Fin 0)))
       = Vec3 (Fin 1) (Fin 0) (Fin 0)
   \<and> linalg_norm (v_mul (cross (Vec3 (Fin 0) (Fin 0) (Fin (- 1))) (Vec3 (Fin 0) (Fin 1) (Fin 0)))
        (Fin (1 / 2))) = Fin (1 / 2)
   \<and> linalg_norm (v_mul (Vec3 (Fin 0) (Fin 0) (Fin (- 1))) (Fin (1 / 2))) = Fin (1 / 2)"
proof -
  let ?s = "\<lparr>star_pos = Vec3 (Fin 0) (Fin 0) (Fin 10),
         star_vel = Vec3 (Fin 0) (Fin 0) (Fin (- (1 / 10))),
         camera_pos = Vec3 (Fin 0) (Fin 0) (Fin 20),
         camera_front = Vec3 (Fin 0) (Fin 0) (Fin (- 1)),
         camera_up = Vec3 (Fin 0) (Fin 1) (Fin 0),
         running = True, view = [], proj = []\<rparr>"
  have f: "linalg_norm (camera_front ?s) = Fin 1" by (simp add: linalg_norm_z)
  have c: "cross (camera_front ?s) (camera_up ?s) = Vec3 (Fin 1) (Fin 0) (Fin 0)"
    by (simp add: f_sub_def)
  have n: "linalg_norm (cross (camera_front ?s) (camera_up ?s)) = Fin 1"
    unfolding c by (simp add: linalg_norm_x)
  note t = camera_step_cross [of ?s]
  have d: "camera_pos (handle_event ?s (KEYDOWN K_d)) =
     v_add (camera_pos ?s) (v_mul (cross (camera_front ?s) (camera_up ?s)) (Fin (1 / 2)))"
    using t by blast
  have d': "camera_pos (handle_event ?s (KEYDOWN K_d)) = Vec3 (Fin (1 / 2)) (Fin 0) (Fin 20)"
    unfolding d c by simp
  have u: "normalize_vec (cross (camera_front ?s) (camera_up ?s)) = cross (camera_front ?s) (camera_up ?s)"
    and h: "linalg_norm (v_mul (cross (camera_front ?s) (camera_up ?s)) (Fin (1 / 2))) = Fin (1 / 2)"
    and w: "linalg_norm (v_mul (camera_front ?s) (Fin (1 / 2))) = Fin (1 / 2)"
    using t f n by blast+
  show ?thesis
    using f n d' u h w unfolding c by (simp add: f_sub_def)
qed

text \<open>
  C4 as stated fails for a camera whose \<open>up\<close> is the unit vector \<open>(0, 0.6, 0.8)\<close>, not
  parallel to \<open>front = (0, 0, -1)\<close>: a \<open>D\<close> key press moves the camera from \<open>x = 0\<close> to
  \<open>x = 0.3\<close>, a step of length \<open>0.3\<close>, where
  \<open>0.5 * normalize(cross(front, up))\<close> is a step to \<open>x = 0.5\<close>.
\<close>

theorem camera_step_counterexample:
  "linalg_norm (Vec3 (Fin 0) (Fin 0) (Fin (- 1))) = Fin 1
   \<and> linalg_norm (Vec3 (Fin 0) (Fin (3 / 5)) (Fin (4 / 5))) = Fin 1
   \<and> camera_pos (handle_event
        \<lparr>star_pos = Vec3 (Fin 0) (Fin 0) (Fin 10),
         star_vel = Vec3 (Fin 0) (Fin 0) (Fin (- (1 / 10))),
         camera_pos = Vec3 (Fin 0) (Fin 0) (Fin 20),
         camera_front = Vec3 (Fin 0) (Fin 0) (Fin (- 1)),
         camera_up = Vec3 (Fin 0) (Fin (3 / 5)) (Fin (4 / 5)),
         running = True, view = [], proj = []\<rparr> (KEYDOWN K_d))
       = Vec3 (Fin (3 / 10)) (Fin 0) (Fin 20)
   \<and> v_add (Vec3 (Fin 0) (Fin 0) (Fin 20))
        (v_mul (normalize_vec (cross (Vec3 (Fin 0) (Fin 0) (Fin (- 1)))
                                      (Vec3 (Fin 0) (Fin (3 / 5)) (Fin (4 / 5)))))
               (Fin (1 / 2)))
       = Vec3 (Fin (1 / 2)) (Fin 0) (Fin 20)
   \<and> linalg_norm (v_mul (cross (Vec3 (Fin 0) (Fin 0) (Fin (- 1)))
                                  (Vec3 (Fin 0) (Fin (3 / 5)) (Fin (4 / 5)))) (Fin (1 / 2)))
       = Fin (3 / 10)"
proof -
  have one: "sqrt (9 / 25 + 16 / 25) = (1::real)" by simp
  have u: "linalg_norm (Vec3 (Fin 0) (Fin (3 / 5)) (Fin (4 / 5))) = Fin 1"
    by (simp add: linalg_norm_Fin)
  have c: "cross (Vec3 (Fin 0) (Fin 0) (Fin (- 1))) (Vec3 (Fin 0) (Fin (3 / 5)) (Fin (4 / 5)))
           = Vec3 (Fin (3 / 5)) (Fin 0) (Fin 0)"
    by (simp add: f_sub_def)
  show ?thesis
    unfolding c
    by (simp add: u linalg_norm_x linalg_norm_z normalize_vec_def f_sub_def)
qed

section \<open>Infall from rest\<close>

text \<open>
  The first update from \<open>(0, 0, 10)\<close> at rest: the acceleration is \<open>-6.6743e18\<close> along
  \<open>z\<close>, so the velocity becomes \<open>-6.6743e16\<close> and the position \<open>10 - 6.6743e14\<close>,
  beyond the origin.
\<close>

lemma first_step:
  "physics_update (Vec3 (Fin 0) (Fin 0) (Fin 10), Vec3 (Fin 0) (Fin 0) (Fin 0)) =
     (Vec3 (Fin 0) (Fin 0) (Fin (- 667429999999990)),
      Vec3 (Fin 0) (Fin 0) (Fin (- 66743000000000000)))"
proof -
  have q: "(0::real) * 0 + 0 * 0 + 10 * 10 \<noteq> 0" by simp
  show ?thesis
    by (simp add: acceleration_Fin [OF q] Let_def sqrt_100)
qed

text \<open>An update of a star on the negative \<open>z\<close> axis moving along it.\<close>

lemma step_below:
  assumes "z < 0"
  shows "physics_update (Vec3 (Fin 0) (Fin 0) (Fin z), Vec3 (Fin 0) (Fin 0) (Fin v)) =
     (Vec3 (Fin 0) (Fin 0) (Fin (z + (v + 6674300000000000000 / (z * z)) / 100)),
      Vec3 (Fin 0) (Fin 0) (Fin (v + 6674300000000000000 / (z * z))))"
proof -
  have q: "0 * 0 + 0 * 0 + z * z \<noteq> 0" using assms by simp
  have r: "sqrt (0 * 0 + 0 * 0 + z * z) = - z" using assms by simp
  have d: "z / - z = - 1" using assms by (simp add: field_simps)
  show ?thesis
    unfolding physics_update.simps Let_def acceleration_Fin [OF q] r
    using assms by (simp add: d)
qed


lemma potential_drop:
  fixes a a' c B :: real
  assumes a: "0 < a" and a': "a < a'" and le: "c * a' \<le> B * (a' - a) * a"
  shows "c / (a * a) \<le> B / a - B / a'"
proof -
  have pos: "0 < a * a * a'" using a a' by simp
  have l: "c / (a * a) = (c * a') / (a * a * a')" using a a' by simp
  have r: "B / a - B / a' = (B * (a' - a) * a) / (a * a * a')"
    using a a' by (simp add: field_simps)
  have "(c * a') / (a * a * a') \<le> (B * (a' - a) * a) / (a * a * a')"
    using le pos by (intro divide_right_mono) simp_all
  then show ?thesis
    by (simp only: l r)
qed

text \<open>
  Once beyond the origin the star keeps a speed of at least \<open>6e16\<close> away from it: the
  pull back toward the origin, summed over all later updates, is bounded by
  \<open>40000 / \<bar>z\<bar>\<close>.
\<close>

lemma escape_step:
  fixes z v z' v' :: real
  assumes z: "z \<le> - 600000000000000"
    and lo: "- 70000000000000000 \<le> v"
    and hi: "v \<le> - 60000000000000000 + 40000 / z"
    and v': "v' = v + 6674300000000000000 / (z * z)"
    and z': "z' = z + v' / 100"
  shows "z' \<le> - 600000000000000 \<and> z' < z \<and> - 70000000000000000 \<le> v'
         \<and> v' \<le> - 60000000000000000 + 40000 / z'"
proof -
  define a where "a = - z"
  define w where "w = - v'"
  define a' where "a' = - z'"
  have a: "600000000000000 \<le> a" and a0: "0 < a" using z by (simp_all add: a_def)
  have zz: "z * z = a * a" by (simp add: a_def)
  have acc: "0 \<le> 6674300000000000000 / (a * a)" using a0 by simp
  have lo': "- 70000000000000000 \<le> v'" using lo acc unfolding v' zz by linarith
  have num: "(6674300000000000000 - 40000 * a) / (a * a) \<le> 0"
    using a a0 by (simp add: divide_le_0_iff)
  have "6674300000000000000 / (a * a) - 40000 / a = (6674300000000000000 - 40000 * a) / (a * a)"
    using a0 by (simp add: field_simps)
  then have drop: "6674300000000000000 / (a * a) - 40000 / a \<le> 0" using num by simp
  have hz: "40000 / z = - (40000 / a)" by (simp add: a_def)
  have w: "60000000000000000 \<le> w" using hi drop unfolding w_def v' zz hz by linarith
  have w2: "w \<le> 70000000000000000" using lo' by (simp add: w_def)
  have a'': "a' = a + w / 100" by (simp add: a'_def a_def w_def z')
  have lt: "a < a'" using w unfolding a'' by simp
  have wa: "60000000000000000 * a \<le> w * a" using w a0 by (simp add: mult_right_mono)
  have lin: "6674300000000000000 * a + 66743000000000000 * w \<le> 400 * (w * a)"
    using wa w2 a by linarith
  have "6674300000000000000 * a' \<le> 40000 * (a' - a) * a"
    unfolding a'' using lin by (simp add: algebra_simps)
  then have pd: "6674300000000000000 / (a * a) \<le> 40000 / a - 40000 / a'"
    using a0 lt by (intro potential_drop)
  have hz': "40000 / z' = - (40000 / a')" by (simp add: a'_def)
  have hi': "v' \<le> - 60000000000000000 + 40000 / z'"
    using hi pd unfolding v' zz hz hz' by linarith
  have "z' \<le> - 600000000000000" "z' < z"
    using a lt by (simp_all add: a'_def a_def)
  then show ?thesis using lo' hi' by simp
qed


lemma star_after_Suc: "star_after (Suc n) = physics_update (star_after n)"
  by (simp add: star_after_def)

lemma star_after_0:
  "star_after 0 = (Vec3 (Fin 0) (Fin 0) (Fin 10), Vec3 (Fin 0) (Fin 0) (Fin 0))"
  by (simp add: star_after_def)

lemma star_after_1:
  "star_after (Suc 0) = (Vec3 (Fin 0) (Fin 0) (Fin (- 667429999999990)),
      Vec3 (Fin 0) (Fin 0) (Fin (- 66743000000000000)))"
  by (simp only: star_after_Suc star_after_0 first_step)

lemma escape_invariant:
  "\<exists>z v. star_after (Suc n) = (Vec3 (Fin 0) (Fin 0) (Fin z), Vec3 (Fin 0) (Fin 0) (Fin v))
     \<and> z \<le> - 600000000000000 \<and> - 70000000000000000 \<le> v
     \<and> v \<le> - 60000000000000000 + 40000 / z"
proof (induction n)
  case 0
  have "(- 66743000000000000::real) \<le> - 60000000000000000 + 40000 / (- 667429999999990)"
    by simp
  then show ?case
    unfolding star_after_1 by simp
next
  case (Suc n)
  then obtain z v where s: "star_after (Suc n) = (Vec3 (Fin 0) (Fin 0) (Fin z), Vec3 (Fin 0) (Fin 0) (Fin v))"
    and z: "z \<le> - 600000000000000" and lo: "- 70000000000000000 \<le> v"
    and hi: "v \<le> - 60000000000000000 + 40000 / z"
    by blast
  have neg: "z < 0" using z by simp
  define v' where "v' = v + 6674300000000000000 / (z * z)"
  define z' where "z' = z + v' / 100"
  have next_state: "star_after (Suc (Suc n)) = (Vec3 (Fin 0) (Fin 0) (Fin z'), Vec3 (Fin 0) (Fin 0) (Fin v'))"
    unfolding star_after_Suc [of "Suc n"] s step_below [OF neg] z'_def v'_def by (rule refl)
  show ?case
    using escape_step [OF z lo hi v'_def z'_def] next_state by blast
qed

text \<open>
  C8 fails on the code. Starting from the position \<open>(0, 0, 10)\<close> with velocity
  \<open>(0, 0, 0)\<close>, the first physics update carries the star through the origin to
  \<open>z = -667429999999990\<close>, and the distance \<open>r\<close> from the origin strictly increases on
  every update, from the first one on: the star never falls toward the black hole.
\<close>

theorem star_recedes:
  "linalg_norm (fst (star_after 0)) = Fin 10
   \<and> star_after (Suc 0) = (Vec3 (Fin 0) (Fin 0) (Fin (- 667429999999990)),
        Vec3 (Fin 0) (Fin 0) (Fin (- 66743000000000000)))
   \<and> linalg_norm (fst (star_after (Suc 0))) = Fin 667429999999990
   \<and> f_less (linalg_norm (fst (star_after n))) (linalg_norm (fst (star_after (Suc n))))"
proof -
  have start: "linalg_norm (fst (star_after 0)) = Fin 10
     \<and> linalg_norm (fst (star_after (Suc 0))) = Fin 667429999999990"
    unfolding star_after_1 star_after_0 by (simp add: linalg_norm_z)
  have grows: "f_less (linalg_norm (fst (star_after n))) (linalg_norm (fst (star_after (Suc n))))"
  proof (cases n)
    case 0
    show ?thesis
      unfolding 0 star_after_1 star_after_0 by (simp add: linalg_norm_z)
  next
    case (Suc m)
    obtain z v where s: "star_after (Suc m) = (Vec3 (Fin 0) (Fin 0) (Fin z), Vec3 (Fin 0) (Fin 0) (Fin v))"
      and z: "z \<le> - 600000000000000" and lo: "- 70000000000000000 \<le> v"
      and hi: "v \<le> - 60000000000000000 + 40000 / z"
      using escape_invariant [of m] by blast
    have neg: "z < 0" using z by simp
    define v' where "v' = v + 6674300000000000000 / (z * z)"
    define z' where "z' = z + v' / 100"
    have next_state: "star_after (Suc (Suc m)) = (Vec3 (Fin 0) (Fin 0) (Fin z'), Vec3 (Fin 0) (Fin 0) (Fin v'))"
      unfolding star_after_Suc [of "Suc m"] s step_below [OF neg] z'_def v'_def by (rule refl)
    have "z' < z" using escape_step [OF z lo hi v'_def z'_def] by blast
    then show ?thesis
      unfolding Suc next_state s using neg by (simp add: linalg_norm_z)
  qed
  show ?thesis
    using start grows star_after_1 by blast
qed

end
